theory Spec2Isabelle
  imports Complex_Main "HOL-Library.Stream"
begin

section \<open>Numbers, errors and the random source\<close>

text \<open>
  The simulator computes with Python numbers. Two kinds occur at run time and behave
  differently: native numbers (\<open>int\<close>, \<open>float\<close>), written \<open>Py\<close>, and \<open>numpy.float64\<close>
  scalars, written \<open>Np\<close>. A numpy scalar enters through \<open>Investment.revaluation\<close>
  (\<open>np.random.choice\<close> returns one) and every arithmetic result with a numpy operand is
  again a numpy scalar. The value itself is a real number: binary rounding of floats is
  not modelled.
\<close>

datatype num = Py real | Np real

fun val :: "num \<Rightarrow> real" where
  "val (Py x) = x"
| "val (Np x) = x"

fun is_np :: "num \<Rightarrow> bool" where
  "is_np (Py x) = False"
| "is_np (Np x) = True"

definition arith :: "(real \<Rightarrow> real \<Rightarrow> real) \<Rightarrow> num \<Rightarrow> num \<Rightarrow> num" where
  "arith f a b =
     (if is_np a \<or> is_np b then Np (f (val a) (val b)) else Py (f (val a) (val b)))"

text \<open>
  \<open>a / b\<close> on \<open>num\<close> is written only where the source divides by something that cannot
  be zero (the constant \<open>12.0\<close>, and \<open>total_alloc\<close> after the check \<open>total_alloc <= 0\<close>).
  The division of \<open>Target.status\<close> is \<open>truediv\<close> below.
\<close>

instantiation num :: "{plus, minus, times, inverse}"
begin

definition plus_num :: "num \<Rightarrow> num \<Rightarrow> num" where
  "plus_num a b = arith (+) a b"

definition minus_num :: "num \<Rightarrow> num \<Rightarrow> num" where
  "minus_num a b = arith (-) a b"

definition times_num :: "num \<Rightarrow> num \<Rightarrow> num" where
  "times_num a b = arith (*) a b"

definition divide_num :: "num \<Rightarrow> num \<Rightarrow> num" where
  "divide_num a b = arith (/) a b"

definition inverse_num :: "num \<Rightarrow> num" where
  "inverse_num a = arith (/) (Py 1) a"

instance ..

end

datatype error = ValueError | AttributeError | ZeroDivisionError

text \<open>
  A numpy division by zero does not raise: it gives \<open>inf\<close>, \<open>-inf\<close> or \<open>nan\<close> (with a
  RuntimeWarning). \<open>fval\<close> is a float that may be one of these. The sign of a zero
  divisor is not modelled (a divisor \<open>-0.0\<close> swaps the two infinities).
\<close>

datatype fval = Fin num | PosInf | NegInf | NaN

definition truediv :: "num \<Rightarrow> num \<Rightarrow> error + fval" where
  "truediv a b =
     (if val b = 0 then
        (if is_np a \<or> is_np b then
           Inr (if 0 < val a then PosInf else if val a < 0 then NegInf else NaN)
         else Inl ZeroDivisionError)
      else Inr (Fin (a / b)))"

fun fmul :: "fval \<Rightarrow> num \<Rightarrow> fval" where
  "fmul (Fin x) c = Fin (x * c)"
| "fmul PosInf c = (if 0 < val c then PosInf else if val c < 0 then NegInf else NaN)"
| "fmul NegInf c = (if 0 < val c then NegInf else if val c < 0 then PosInf else NaN)"
| "fmul NaN c = NaN"

text \<open>Python's \<open>min(a, x)\<close> and \<open>max(a, x)\<close>: the first argument stays unless the second is
  strictly smaller (larger); a comparison with \<open>nan\<close> is false.\<close>

fun py_min :: "num \<Rightarrow> fval \<Rightarrow> fval" where
  "py_min a (Fin x) = (if val x < val a then Fin x else Fin a)"
| "py_min a PosInf = Fin a"
| "py_min a NegInf = NegInf"
| "py_min a NaN = Fin a"

definition py_max :: "num \<Rightarrow> num \<Rightarrow> num" where
  "py_max a x = (if val a < val x then x else a)"

text \<open>\<open>round(x, 2)\<close>: to the nearest hundredth, ties to the even one.\<close>

definition round_half_even :: "real \<Rightarrow> int" where
  "round_half_even x =
     (let f = \<lfloor>x\<rfloor>; d = x - of_int f
      in if d < 1 / 2 then f else if 1 / 2 < d then f + 1 else if even f then f else f + 1)"

fun round2 :: "num \<Rightarrow> num" where
  "round2 (Py x) = Py (of_int (round_half_even (x * 100)) / 100)"
| "round2 (Np x) = Np (of_int (round_half_even (x * 100)) / 100)"

fun py_mod :: "int \<Rightarrow> int \<Rightarrow> error + int" where
  "py_mod a b = (if b = 0 then Inl ZeroDivisionError else Inr (a mod b))"

text \<open>
  The random source is numpy's process-wide generator. Its state is the stream of the
  uniform draws from \<open>[0, 1)\<close> it will still produce; \<open>np.random.rand()\<close> takes the next
  one. \<open>np.random.choice(a, p=...)\<close> takes one draw and looks it up in the cumulated
  probabilities \<open>0.6, 0.8, 0.925, 0.975, 1\<close>. What \<open>np.random.seed(s)\<close> sets the state
  to is a parameter \<open>seeded\<close> of the constructor.
\<close>

type_synonym rng = "real stream"

definition rand :: "rng \<Rightarrow> real \<times> rng" where
  "rand g = (shd g, stl g)"

definition choice :: "rng \<Rightarrow> real \<times> rng" where
  "choice g =
     (let u = shd g
      in (if u < 0.6 then 0.05 else if u < 0.8 then 0.1 else if u < 0.925 then 0.15
          else if u < 0.975 then 0.2 else 0.3, stl g))"

section \<open>Entities\<close>

subsection \<open>incomes.py, expenses.py\<close>

record income =
  name :: string
  amount :: num
  recurrence :: int
  inc :: bool
  increment_rate :: num
  active :: bool

definition Income :: "string \<Rightarrow> num \<Rightarrow> int \<Rightarrow> bool \<Rightarrow> num \<Rightarrow> income" where
  "Income n a r i rate =
     \<lparr>income.name = n, amount = a, recurrence = r, inc = i,
      increment_rate = (if i then rate else Py 0), active = True\<rparr>"

definition receive :: "income \<Rightarrow> num" where
  "receive i = (if income.active i then income.amount i else Py 0)"

definition income_apply_increment :: "income \<Rightarrow> income" where
  "income_apply_increment i =
     (if income.inc i \<and> income.active i
      then i\<lparr>income.amount := income.amount i * (Py 1 + income.increment_rate i)\<rparr> else i)"

record expense =
  name :: string
  amount :: num
  recurrence :: int
  inc :: bool
  increment_rate :: num
  active :: bool

definition Expense :: "string \<Rightarrow> num \<Rightarrow> int \<Rightarrow> bool \<Rightarrow> num \<Rightarrow> expense" where
  "Expense n a r i rate =
     \<lparr>expense.name = n, amount = a, recurrence = r, inc = i,
      increment_rate = (if i then rate else Py 0), active = True\<rparr>"

definition charge :: "expense \<Rightarrow> num" where
  "charge e = (if expense.active e then expense.amount e else Py 0)"

definition expense_apply_increment :: "expense \<Rightarrow> expense" where
  "expense_apply_increment e =
     (if expense.inc e \<and> expense.active e
      then e\<lparr>expense.amount := expense.amount e * (Py 1 + expense.increment_rate e)\<rparr> else e)"

subsection \<open>investments.py\<close>

record investment =
  name :: string
  amount :: num
  strt_amount :: num
  yearly_return_rate :: num
  volatility :: num
  dividend_per :: num
  active :: bool

definition Investment :: "string \<Rightarrow> num \<Rightarrow> num \<Rightarrow> num \<Rightarrow> num \<Rightarrow> investment" where
  "Investment n a yr vol dv =
     \<lparr>investment.name = n, amount = a, strt_amount = a, yearly_return_rate = yr,
      volatility = vol, dividend_per = dv, active = True\<rparr>"

definition add_funds :: "investment \<Rightarrow> num \<Rightarrow> investment" where
  "add_funds v add_amount =
     (if investment.active v then v\<lparr>investment.amount := investment.amount v + add_amount\<rparr>
      else v)"

text \<open>\<open>dir\<close> is a native int, \<open>rate\<close> the numpy scalar \<open>choice\<close> returns, so
  \<open>abs(dir + rate)\<close> is a numpy scalar and the balance is one from then on.\<close>

definition revaluation :: "investment \<Rightarrow> rng \<Rightarrow> investment \<times> rng" where
  "revaluation v g =
     (if investment.active v then
        (let (u, g1) = rand g in
         if u < val (volatility v) then
           (let (u2, g2) = rand g1;
                dir = (if 0.5 < u2 then 1 else - 1);
                (rate, g3) = choice g2
            in (v\<lparr>investment.amount := investment.amount v * Np \<bar>dir + rate\<bar>\<rparr>, g3))
         else (v, g1))
      else (v, g))"

definition yearly_increase :: "investment \<Rightarrow> investment" where
  "yearly_increase v =
     (if investment.active v
      then v\<lparr>investment.amount := investment.amount v * (Py 1 + yearly_return_rate v)\<rparr>
      else v)"

text \<open>An inactive investment's \<open>dividend()\<close> is \<open>False\<close>, which counts as 0.\<close>

definition dividend :: "investment \<Rightarrow> num" where
  "dividend v = (if investment.active v then investment.amount v * dividend_per v else Py 0)"

subsection \<open>events.py\<close>

text \<open>
  An event's action is the closure \<open>make_event_action\<close> returns (the only builder of
  actions in the repository): it is kept as the four values the closure captures, and
  \<open>action_call\<close> below is its body.
\<close>

record action =
  act_obj_type :: string
  act_obj_name :: string
  act_operation :: string
  act_value :: num

record event =
  name :: string
  trigger_month :: int
  action :: action
  executed :: bool


section \<open>finance_manager.py\<close>

text \<open>A snapshot is the dict \<open>step_month\<close> returns; a target status is the tuple
  \<open>(name, current, progress, reached)\<close>.\<close>

record snapshot =
  month :: int
  cash :: num
  income :: num
  expense :: num
  dividends :: num
  invested :: num
  investments_total :: num
  targets :: "(string \<times> num \<times> fval \<times> bool) list"

text \<open>
  \<open>core\<close> holds every attribute of a \<open>FinanceManager\<close> except \<open>targets\<close>; \<open>engine\<close> adds
  the targets. A target's \<open>check_function\<close> is any function of the manager that returns a
  number or raises; it reads the manager through \<open>core\<close>, since a record cannot hold
  functions of itself. \<open>allocation\<close> is a dict: its items in insertion order.
\<close>

record core =
  month :: int
  cash :: num
  incomes :: "income list"
  expenses :: "expense list"
  investments :: "investment list"
  events :: "event list"
  reinvest_dividends :: bool
  invest_sweep_rate :: num
  allocation :: "(string \<times> num) list"
  history :: "snapshot list"

subsection \<open>targets.py\<close>

record target =
  name :: string
  check_function :: "core \<Rightarrow> error + num"
  goal_value :: num

record engine = core +
  targets :: "target list"

definition Target :: "string \<Rightarrow> (core \<Rightarrow> error + num) \<Rightarrow> num \<Rightarrow> target" where
  "Target n f g = \<lparr>target.name = n, check_function = f, goal_value = g\<rparr>"

definition status :: "target \<Rightarrow> engine \<Rightarrow> error + (num \<times> fval)" where
  "status t finance_manager =
     (case check_function t (core.truncate finance_manager) of
        Inl e \<Rightarrow> Inl e
      | Inr current_value \<Rightarrow>
          (case truediv current_value (goal_value t) of
             Inl e \<Rightarrow> Inl e
           | Inr q \<Rightarrow> Inr (current_value, py_min (Py 100) (fmul q (Py 100)))))"

definition is_reached :: "target \<Rightarrow> engine \<Rightarrow> error + bool" where
  "is_reached t finance_manager =
     (case status t finance_manager of
        Inl e \<Rightarrow> Inl e
      | Inr (current_value, _) \<Rightarrow> Inr (val (goal_value t) \<le> val current_value))"

subsection \<open>Construction and adders\<close>


definition validate_recurrence :: "int \<Rightarrow> error + unit" where
  "validate_recurrence r = (if r < 1 then Inl ValueError else Inr ())"

definition add_income :: "income \<Rightarrow> engine \<Rightarrow> error + engine" where
  "add_income i fm =
     (case validate_recurrence (income.recurrence i) of
        Inl e \<Rightarrow> Inl e
      | Inr _ \<Rightarrow> Inr (fm\<lparr>incomes := incomes fm @ [i]\<rparr>))"

definition add_expense :: "expense \<Rightarrow> engine \<Rightarrow> error + engine" where
  "add_expense x fm =
     (case validate_recurrence (expense.recurrence x) of
        Inl e \<Rightarrow> Inl e
      | Inr _ \<Rightarrow> Inr (fm\<lparr>expenses := expenses fm @ [x]\<rparr>))"


definition add_event :: "event \<Rightarrow> engine \<Rightarrow> engine" where
  "add_event ev fm = fm\<lparr>events := events fm @ [ev]\<rparr>"

definition add_target :: "target \<Rightarrow> engine \<Rightarrow> engine" where
  "add_target t fm = fm\<lparr>targets := targets fm @ [t]\<rparr>"

subsection \<open>Lookup and deletion\<close>

text \<open>\<open>str.lower\<close> on the ASCII letters; no other character lowers to a letter of the five
  type names.\<close>

definition lower_char :: "char \<Rightarrow> char" where
  "lower_char c =
     (let n = of_char c :: nat in if 65 \<le> n \<and> n \<le> 90 then char_of (n + 32) else c)"

definition lower :: "string \<Rightarrow> string" where
  "lower s = map lower_char s"

text \<open>An object of the manager is referred to by its collection and its position there
  (no object is held at two positions).\<close>

datatype obj_ref =
  IncomeRef nat | ExpenseRef nat | InvestmentRef nat | EventRef nat | TargetRef nat

fun first_index :: "('a \<Rightarrow> bool) \<Rightarrow> 'a list \<Rightarrow> nat option" where
  "first_index P [] = None"
| "first_index P (x # xs) = (if P x then Some 0 else map_option Suc (first_index P xs))"

definition get_income :: "string \<Rightarrow> engine \<Rightarrow> nat option" where
  "get_income n fm = first_index (\<lambda>i. income.name i = n \<and> income.active i) (incomes fm)"

definition get_expense :: "string \<Rightarrow> engine \<Rightarrow> nat option" where
  "get_expense n fm = first_index (\<lambda>e. expense.name e = n \<and> expense.active e) (expenses fm)"

definition get_investment :: "string \<Rightarrow> engine \<Rightarrow> nat option" where
  "get_investment n fm =
     first_index (\<lambda>v. investment.name v = n \<and> investment.active v) (investments fm)"

text \<open>\<open>get_object\<close> skips an object whose \<open>is_active\<close> is false; events and targets have
  no such attribute.\<close>

definition get_object :: "string \<Rightarrow> string \<Rightarrow> engine \<Rightarrow> error + obj_ref option" where
  "get_object obj_type obj_name fm =
     (let t = lower obj_type in
      if t = ''income'' then
        Inr (map_option IncomeRef
          (first_index (\<lambda>obj. income.name obj = obj_name \<and> income.active obj) (incomes fm)))
      else if t = ''expense'' then
        Inr (map_option ExpenseRef
          (first_index (\<lambda>obj. expense.name obj = obj_name \<and> expense.active obj) (expenses fm)))
      else if t = ''investment'' then
        Inr (map_option InvestmentRef
          (first_index (\<lambda>obj. investment.name obj = obj_name \<and> investment.active obj)
             (investments fm)))
      else if t = ''event'' then
        Inr (map_option EventRef (first_index (\<lambda>obj. event.name obj = obj_name) (events fm)))
      else if t = ''target'' then
        Inr (map_option TargetRef (first_index (\<lambda>obj. target.name obj = obj_name) (targets fm)))
      else Inl ValueError)"

definition pop :: "nat \<Rightarrow> 'a list \<Rightarrow> 'a list" where
  "pop i xs = take i xs @ drop (Suc i) xs"

text \<open>
  For an income, expense or investment, \<open>delete_object\<close> executes \<open>obj.is_active = False\<close>.
  \<open>is_active\<close> is a property without a setter in all three classes, so the assignment
  raises AttributeError and \<open>active\<close> keeps its value.
\<close>

definition delete_object :: "string \<Rightarrow> string \<Rightarrow> engine \<Rightarrow> error + (bool \<times> engine)" where
  "delete_object obj_type obj_name fm =
     (let t = lower obj_type in
      if t = ''income'' then
        (case first_index (\<lambda>obj. income.name obj = obj_name) (incomes fm) of
           None \<Rightarrow> Inr (False, fm) | Some i \<Rightarrow> Inl AttributeError)
      else if t = ''expense'' then
        (case first_index (\<lambda>obj. expense.name obj = obj_name) (expenses fm) of
           None \<Rightarrow> Inr (False, fm) | Some i \<Rightarrow> Inl AttributeError)
      else if t = ''investment'' then
        (case first_index (\<lambda>obj. investment.name obj = obj_name) (investments fm) of
           None \<Rightarrow> Inr (False, fm) | Some i \<Rightarrow> Inl AttributeError)
      else if t = ''event'' then
        (case first_index (\<lambda>obj. event.name obj = obj_name) (events fm) of
           None \<Rightarrow> Inr (False, fm)
         | Some i \<Rightarrow> Inr (True, fm\<lparr>events := pop i (events fm)\<rparr>))
      else if t = ''target'' then
        (case first_index (\<lambda>obj. target.name obj = obj_name) (targets fm) of
           None \<Rightarrow> Inr (False, fm)
         | Some i \<Rightarrow> Inr (True, fm\<lparr>targets := pop i (targets fm)\<rparr>))
      else Inl ValueError)"

subsection \<open>Event actions\<close>

definition make_event_action :: "string \<Rightarrow> string \<Rightarrow> string \<Rightarrow> num \<Rightarrow> action" where
  "make_event_action obj_type obj_name operation v =
     \<lparr>act_obj_type = obj_type, act_obj_name = obj_name, act_operation = operation,
      act_value = v\<rparr>"

text \<open>\<open>obj.amount = f(obj.amount)\<close>: \<open>None\<close>, an event and a target have no attribute
  \<open>amount\<close>, and reading it raises AttributeError.\<close>

fun update_amount :: "obj_ref option \<Rightarrow> (num \<Rightarrow> num) \<Rightarrow> engine \<Rightarrow> error + engine" where
  "update_amount None f fm = Inl AttributeError"
| "update_amount (Some (IncomeRef i)) f fm =
     Inr (fm\<lparr>incomes := (incomes fm)
       [i := (incomes fm ! i)\<lparr>income.amount := f (income.amount (incomes fm ! i))\<rparr>]\<rparr>)"
| "update_amount (Some (ExpenseRef i)) f fm =
     Inr (fm\<lparr>expenses := (expenses fm)
       [i := (expenses fm ! i)\<lparr>expense.amount := f (expense.amount (expenses fm ! i))\<rparr>]\<rparr>)"
| "update_amount (Some (InvestmentRef i)) f fm =
     Inr (fm\<lparr>investments := (investments fm)
       [i := (investments fm ! i)
          \<lparr>investment.amount := f (investment.amount (investments fm ! i))\<rparr>]\<rparr>)"
| "update_amount (Some (EventRef i)) f fm = Inl AttributeError"
| "update_amount (Some (TargetRef i)) f fm = Inl AttributeError"

definition action_call :: "action \<Rightarrow> engine \<Rightarrow> error + engine" where
  "action_call a fm =
     (case get_object (act_obj_type a) (act_obj_name a) fm of
        Inl e \<Rightarrow> Inl e
      | Inr obj \<Rightarrow>
          if act_operation a = ''add'' then update_amount obj (\<lambda>x. x + act_value a) fm
          else if act_operation a = ''multiply'' then
            update_amount obj (\<lambda>x. x * act_value a) fm
          else if act_operation a = ''reduce_percent'' then
            update_amount obj (\<lambda>x. x * (Py 1 - act_value a)) fm
          else if act_operation a = ''add_percent'' then
            update_amount obj (\<lambda>x. x * (Py 1 + act_value a)) fm
          else Inr fm)"

text \<open>\<open>Event.apply\<close>, for the event at position \<open>i\<close> of \<open>fm.events\<close>.\<close>

definition Event_apply :: "nat \<Rightarrow> int \<Rightarrow> engine \<Rightarrow> error + engine" where
  "Event_apply i m finance_manager =
     (let ev = events finance_manager ! i in
      if m = trigger_month ev \<and> \<not> executed ev then
        (case action_call (action ev) finance_manager of
           Inl e \<Rightarrow> Inl e
         | Inr fm' \<Rightarrow> Inr (fm'\<lparr>events := (events fm')[i := (events fm' ! i)\<lparr>executed := True\<rparr>]\<rparr>))
      else Inr finance_manager)"

subsection \<open>The monthly step\<close>

text \<open>\<open>_is_due\<close>: \<open>and\<close> does not evaluate \<open>month % recurrence\<close> for an inactive object;
  for an active one with recurrence 0 the remainder raises.\<close>

definition is_due :: "int \<Rightarrow> bool \<Rightarrow> int \<Rightarrow> error + bool" where
  "is_due m is_active r =
     (if \<not> is_active then Inr False
      else case py_mod m r of Inl e \<Rightarrow> Inl e | Inr x \<Rightarrow> Inr (x = 0))"

text \<open>1) Events: \<open>for ev in self.events: ev.apply(self.month, self)\<close>, by position.\<close>

fun events_loop :: "nat list \<Rightarrow> engine \<Rightarrow> error + engine" where
  "events_loop [] fm = Inr fm"
| "events_loop (i # rest) fm =
     (case Event_apply i (month fm) fm of
        Inl e \<Rightarrow> Inl e
      | Inr fm' \<Rightarrow> events_loop rest fm')"

text \<open>2) Incomes and expenses due this month; the accumulators are the month's total and
  the cash.\<close>

fun incomes_loop :: "int \<Rightarrow> income list \<Rightarrow> num \<Rightarrow> num \<Rightarrow> error + (num \<times> num)" where
  "incomes_loop m [] income_this_month c = Inr (income_this_month, c)"
| "incomes_loop m (i # rest) income_this_month c =
     (case is_due m (income.active i) (income.recurrence i) of
        Inl e \<Rightarrow> Inl e
      | Inr due \<Rightarrow>
          if due then
            (let amt = receive i in incomes_loop m rest (income_this_month + amt) (c + amt))
          else incomes_loop m rest income_this_month c)"

fun expenses_loop :: "int \<Rightarrow> expense list \<Rightarrow> num \<Rightarrow> num \<Rightarrow> error + (num \<times> num)" where
  "expenses_loop m [] expense_this_month c = Inr (expense_this_month, c)"
| "expenses_loop m (x # rest) expense_this_month c =
     (case is_due m (expense.active x) (expense.recurrence x) of
        Inl e \<Rightarrow> Inl e
      | Inr due \<Rightarrow>
          if due then
            (let amt = charge x in expenses_loop m rest (expense_this_month + amt) (c - amt))
          else expenses_loop m rest expense_this_month c)"

text \<open>3) Dividends: the result is the investments, the dividends received and the cash.\<close>

fun dividends_loop ::
  "bool \<Rightarrow> investment list \<Rightarrow> num \<Rightarrow> num \<Rightarrow> investment list \<times> num \<times> num" where
  "dividends_loop reinvest [] dividends_received c = ([], dividends_received, c)"
| "dividends_loop reinvest (v # rest) dividends_received c =
     (if investment.active v then
        (let monthly_div = dividend v / Py 12 in
         if reinvest then
           (let (rest', d', c') =
                  dividends_loop reinvest rest (dividends_received + monthly_div) c
            in (add_funds v monthly_div # rest', d', c'))
         else
           (let (rest', d', c') =
                  dividends_loop reinvest rest (dividends_received + monthly_div)
                    (c + monthly_div)
            in (v # rest', d', c')))
      else
        (let (rest', d', c') = dividends_loop reinvest rest dividends_received c
         in (v # rest', d', c')))"

text \<open>4) Revaluation, in the order of the collection, each taking its draws from the
  generator the one before left.\<close>

fun revaluation_loop :: "investment list \<Rightarrow> rng \<Rightarrow> investment list \<times> rng" where
  "revaluation_loop [] g = ([], g)"
| "revaluation_loop (v # rest) g =
     (let (v', g1) = revaluation v g; (rest', g2) = revaluation_loop rest g1
      in (v' # rest', g2))"

text \<open>6) The sweep. \<open>next(...)\<close> finds the first active investment of the name.\<close>

fun sweep_loop ::
  "(string \<times> num) list \<Rightarrow> num \<Rightarrow> num \<Rightarrow> investment list \<Rightarrow> num \<Rightarrow> investment list \<times> num" where
  "sweep_loop [] sweep_amount total_alloc invs invested_from_sweep =
     (invs, invested_from_sweep)"
| "sweep_loop ((n, weight) # rest) sweep_amount total_alloc invs invested_from_sweep =
     (case first_index (\<lambda>v. investment.name v = n \<and> investment.active v) invs of
        None \<Rightarrow> sweep_loop rest sweep_amount total_alloc invs invested_from_sweep
      | Some j \<Rightarrow>
          (let add_amt = sweep_amount * (weight / total_alloc)
           in sweep_loop rest sweep_amount total_alloc
                (invs[j := add_funds (invs ! j) add_amt]) (invested_from_sweep + add_amt)))"

definition sweep :: "engine \<Rightarrow> error + (num \<times> engine)" where
  "sweep fm =
     (if 0 < val (invest_sweep_rate fm) \<and> allocation fm \<noteq> [] then
        (let sweep_amount = py_max (Py 0) (cash fm * invest_sweep_rate fm) in
         if 0 < val sweep_amount then
           (let total_alloc = foldl (+) (Py 0) (map snd (allocation fm)) in
            if val total_alloc \<le> 0 then Inl ValueError
            else
              (let (invs, invested_from_sweep) =
                     sweep_loop (allocation fm) sweep_amount total_alloc (investments fm) (Py 0)
               in Inr (invested_from_sweep,
                       fm\<lparr>investments := invs, cash := cash fm - invested_from_sweep\<rparr>)))
         else Inr (Py 0, fm))
      else Inr (Py 0, fm))"

text \<open>7) \<open>_apply_increments_if_cycle_end\<close>.\<close>

fun income_increments :: "int \<Rightarrow> income list \<Rightarrow> error + income list" where
  "income_increments m [] = Inr []"
| "income_increments m (i # rest) =
     (case is_due m (income.active i) (income.recurrence i) of
        Inl e \<Rightarrow> Inl e
      | Inr due \<Rightarrow>
          (case income_increments m rest of
             Inl e \<Rightarrow> Inl e
           | Inr rest' \<Rightarrow>
               Inr ((if due \<and> income.inc i then income_apply_increment i else i) # rest')))"

fun expense_increments :: "int \<Rightarrow> expense list \<Rightarrow> error + expense list" where
  "expense_increments m [] = Inr []"
| "expense_increments m (x # rest) =
     (case is_due m (expense.active x) (expense.recurrence x) of
        Inl e \<Rightarrow> Inl e
      | Inr due \<Rightarrow>
          (case expense_increments m rest of
             Inl e \<Rightarrow> Inl e
           | Inr rest' \<Rightarrow>
               Inr ((if due \<and> expense.inc x then expense_apply_increment x else x) # rest')))"

definition apply_increments_if_cycle_end :: "engine \<Rightarrow> error + engine" where
  "apply_increments_if_cycle_end fm =
     (case income_increments (month fm) (incomes fm) of
        Inl e \<Rightarrow> Inl e
      | Inr incs \<Rightarrow>
          (case expense_increments (month fm) (expenses fm) of
             Inl e \<Rightarrow> Inl e
           | Inr exps \<Rightarrow> Inr (fm\<lparr>incomes := incs, expenses := exps\<rparr>)))"

text \<open>8) The snapshot. \<open>sum\<close> starts from the native 0.\<close>

definition total_investments :: "'a core_scheme \<Rightarrow> num" where
  "total_investments fm =
     foldl (+) (Py 0) (map investment.amount (filter investment.active (investments fm)))"

fun targets_status_loop ::
  "target list \<Rightarrow> engine \<Rightarrow> error + (string \<times> num \<times> fval \<times> bool) list" where
  "targets_status_loop [] fm = Inr []"
| "targets_status_loop (t # rest) fm =
     (case status t fm of
        Inl e \<Rightarrow> Inl e
      | Inr (current, progress) \<Rightarrow>
          (case is_reached t fm of
             Inl e \<Rightarrow> Inl e
           | Inr reached \<Rightarrow>
               (case targets_status_loop rest fm of
                  Inl e \<Rightarrow> Inl e
                | Inr statuses \<Rightarrow> Inr ((target.name t, current, progress, reached) # statuses))))"

definition targets_status :: "engine \<Rightarrow> error + (string \<times> num \<times> fval \<times> bool) list" where
  "targets_status fm = targets_status_loop (targets fm) fm"

text \<open>
  \<open>step_month\<close> takes the manager and the state of the generator and returns the
  snapshot with both as the step leaves them, or the exception that ended the step (the
  model does not say what state an aborted step leaves behind).
\<close>

definition step_month :: "engine \<Rightarrow> rng \<Rightarrow> error + (snapshot \<times> engine \<times> rng)" where
  "step_month fm g =
     (case events_loop [0..<length (events fm)] fm of
        Inl e \<Rightarrow> Inl e
      | Inr fm1 \<Rightarrow>
     (case incomes_loop (month fm1) (incomes fm1) (Py 0) (cash fm1) of
        Inl e \<Rightarrow> Inl e
      | Inr (income_this_month, c2) \<Rightarrow>
     (case expenses_loop (month fm1) (expenses fm1) (Py 0) c2 of
        Inl e \<Rightarrow> Inl e
      | Inr (expense_this_month, c3) \<Rightarrow>
     (let (invs3, dividends_received, c4) =
            dividends_loop (reinvest_dividends fm1) (investments fm1) (Py 0) c3;
          (invs4, g') = revaluation_loop invs3 g;
          invs5 = (if (month fm1 + 1) mod 12 = 0 then map yearly_increase invs4 else invs4)
      in
     (case sweep (fm1\<lparr>cash := c4, investments := invs5\<rparr>) of
        Inl e \<Rightarrow> Inl e
      | Inr (invested_from_sweep, fm6) \<Rightarrow>
     (case apply_increments_if_cycle_end fm6 of
        Inl e \<Rightarrow> Inl e
      | Inr fm7 \<Rightarrow>
     (case targets_status fm7 of
        Inl e \<Rightarrow> Inl e
      | Inr statuses \<Rightarrow>
     (let snap =
            \<lparr>snapshot.month = month fm7,
             cash = round2 (cash fm7),
             income = round2 income_this_month,
             expense = round2 expense_this_month,
             dividends = round2 dividends_received,
             invested = round2 invested_from_sweep,
             investments_total = round2 (total_investments fm7),
             targets = statuses\<rparr>
      in Inr (snap, fm7\<lparr>history := history fm7 @ [snap], month := month fm7 + 1\<rparr>, g')))))))))"



section \<open>Notions the properties are stated with\<close>

text \<open>
  \<open>has_active_entity ty n fm\<close>: the manager holds an entity of type \<open>ty\<close> named \<open>n\<close>, active
  where the type has an activity flag. It is stated on the collections, not through
  \<open>get_object\<close>.
\<close>

definition has_active_entity :: "string \<Rightarrow> string \<Rightarrow> engine \<Rightarrow> bool" where
  "has_active_entity ty n fm =
     (let t = lower ty in
      (t = ''income'' \<and> (\<exists>x \<in> set (incomes fm). income.name x = n \<and> income.active x)) \<or>
      (t = ''expense'' \<and> (\<exists>x \<in> set (expenses fm). expense.name x = n \<and> expense.active x)) \<or>
      (t = ''investment'' \<and>
         (\<exists>x \<in> set (investments fm). investment.name x = n \<and> investment.active x)) \<or>
      (t = ''event'' \<and> (\<exists>x \<in> set (events fm). event.name x = n)) \<or>
      (t = ''target'' \<and> (\<exists>x \<in> set (targets fm). target.name x = n)))"





text \<open>
  The sweep: \<open>find_active invs n\<close> is the position of the first active investment named
  \<open>n\<close>. \<open>share\<close> is what the investment at position \<open>j\<close> is to receive: its allocation's
  part of the sweep if it is the first active investment of its name and the allocation
  names it, nothing otherwise. \<open>distributed\<close> lists the parts of the allocation entries
  that name an active investment.
\<close>

definition find_active :: "investment list \<Rightarrow> string \<Rightarrow> nat option" where
  "find_active invs n = first_index (\<lambda>v. investment.name v = n \<and> investment.active v) invs"

definition share ::
  "(string \<times> num) list \<Rightarrow> num \<Rightarrow> num \<Rightarrow> investment list \<Rightarrow> nat \<Rightarrow> num option" where
  "share alloc sweep_amount total_alloc invs j =
     (if find_active invs (investment.name (invs ! j)) = Some j
      then map_option (\<lambda>w. sweep_amount * (w / total_alloc))
             (map_of alloc (investment.name (invs ! j)))
      else None)"

definition distributed ::
  "(string \<times> num) list \<Rightarrow> num \<Rightarrow> num \<Rightarrow> investment list \<Rightarrow> num list" where
  "distributed alloc sweep_amount total_alloc invs =
     map (\<lambda>(n, w). sweep_amount * (w / total_alloc))
       (filter (\<lambda>(n, w). \<exists>v \<in> set invs. investment.name v = n \<and> investment.active v) alloc)"


subsection \<open>Example managers\<close>

text \<open>The example of the specification: cash 15000, a monthly income of 20000 and a
  monthly expense of 6000.\<close>

definition example_manager :: engine where
  "example_manager =
     \<lparr>month = 0, cash = Py 15000,
      incomes = [Income ''Salary'' (Py 20000) 1 False (Py 0)],
      expenses = [Expense ''Rent'' (Py 6000) 1 False (Py 0)],
      investments = [], events = [], reinvest_dividends = False,
      invest_sweep_rate = Py 0, allocation = [], history = [], targets = []\<rparr>"


text \<open>Allocation \<open>{A: 0.6, B: 0.4}\<close> and a sweep of half of 2000; \<open>B\<close> is active or not.\<close>

definition sweep_manager :: "bool \<Rightarrow> engine" where
  "sweep_manager b_active =
     \<lparr>month = 0, cash = Py 2000, incomes = [], expenses = [],
      investments =
        [Investment ''A'' (Py 0) (Py 0) (Py 0) (Py 0),
         (Investment ''B'' (Py 0) (Py 0) (Py 0) (Py 0))\<lparr>investment.active := b_active\<rparr>],
      events = [], reinvest_dividends = False, invest_sweep_rate = Py 0.5,
      allocation = [(''A'', Py 0.6), (''B'', Py 0.4)], history = [], targets = []\<rparr>"


text \<open>One investment of volatility 0.5, and a target of goal 0 on the total of the
  investments.\<close>

definition zero_goal_manager :: engine where
  "zero_goal_manager =
     \<lparr>month = 0, cash = Py 0, incomes = [], expenses = [],
      investments = [Investment ''Stocks'' (Py 30000) (Py 0.2) (Py 0.5) (Py 0)],
      events = [], reinvest_dividends = True, invest_sweep_rate = Py 0, allocation = [],
      history = [],
      targets = [Target ''Wealth'' (\<lambda>c. Inr (total_investments c)) (Py 0)]\<rparr>"

section \<open>Arithmetic of the two kinds of number\<close>

lemma val_arith: "val (arith f a b) = f (val a) (val b)"
  by (simp add: arith_def)

lemma is_np_arith: "is_np (arith f a b) = (is_np a \<or> is_np b)"
  by (simp add: arith_def)

lemma val_plus: "val (a + b) = val a + val b"
  by (simp add: plus_num_def val_arith)

lemma val_minus: "val (a - b) = val a - val b"
  by (simp add: minus_num_def val_arith)

lemma val_times: "val (a * b) = val a * val b"
  by (simp add: times_num_def val_arith)

lemma val_divide: "val (a / b) = val a / val b"
  by (simp add: divide_num_def val_arith)

lemmas val_simps = val_plus val_minus val_times val_divide

lemmas num_defs = plus_num_def minus_num_def times_num_def divide_num_def arith_def

lemma val_round2: "val (round2 x) = of_int (round_half_even (val x * 100)) / 100"
  by (cases x) simp_all

lemma round_half_even_of_int: "round_half_even (of_int k) = k"
  by (simp add: round_half_even_def)

text \<open>Rounding to cents leaves a whole number of cents as it is.\<close>

lemma val_round2_cents:
  assumes "val x * 100 = of_int k"
  shows "val (round2 x) = val x"
proof -
  have "val (round2 x) = of_int k / 100"
    by (simp add: val_round2 assms round_half_even_of_int)
  also have "\<dots> = val x" using assms by simp
  finally show ?thesis .
qed

section \<open>Revaluation\<close>





section \<open>Lookup, deletion and event actions\<close>

lemma lower_income: "lower ''income'' = ''income''" "lower ''Income'' = ''income''"
  by code_simp+

lemma first_index_None_iff: "first_index P xs = None \<longleftrightarrow> (\<forall>x \<in> set xs. \<not> P x)"
  by (induction xs) auto

lemma first_index_Some_iff:
  "first_index P xs = Some i \<longleftrightarrow> i < length xs \<and> P (xs ! i) \<and> (\<forall>j < i. \<not> P (xs ! j))"
proof (induction xs arbitrary: i)
  case Nil
  then show ?case by simp
next
  case (Cons x xs)
  show ?case
  proof (cases "P x")
    case True
    then show ?thesis by (cases i) auto
  next
    case False
    show ?thesis
    proof (cases i)
      case 0
      with False show ?thesis by auto
    next
      case (Suc k)
      have "(\<forall>j < Suc k. \<not> P ((x # xs) ! j)) \<longleftrightarrow> (\<forall>j < k. \<not> P (xs ! j))"
        using False by (auto simp: less_Suc_eq_0_disj)
      with Suc False Cons.IH[of k] show ?thesis by auto
    qed
  qed
qed

lemma first_index_exists: "(\<exists>i. first_index P xs = Some i) \<longleftrightarrow> (\<exists>x \<in> set xs. P x)"
  using first_index_None_iff[of P xs] by (cases "first_index P xs") auto

text \<open>\<open>get_object\<close> finds an object exactly when the manager holds an active entity of the
  type and name.\<close>

lemma get_object_found_iff:
  "(\<exists>r. get_object ty n fm = Inr (Some r)) \<longleftrightarrow> has_active_entity ty n fm"
  unfolding get_object_def has_active_entity_def Let_def
  by (auto simp: first_index_exists[symmetric])

text \<open>
  C10. An action built by \<open>make_event_action\<close> whose operation is none of \<open>add\<close>,
  \<open>multiply\<close>, \<open>reduce_percent\<close>, \<open>add_percent\<close>, called on a manager that holds a
  matching active entity, raises nothing and returns the manager unchanged: the amount of
  the entity and everything else are as before.
\<close>

theorem unknown_operation_is_noop:
  assumes "operation \<notin> {''add'', ''multiply'', ''reduce_percent'', ''add_percent''}"
    and "has_active_entity obj_type obj_name fm"
  shows "action_call (make_event_action obj_type obj_name operation v) fm = Inr fm"
proof -
  from assms(2) obtain r where "get_object obj_type obj_name fm = Inr (Some r)"
    using get_object_found_iff by blast
  with assms(1) show ?thesis
    by (simp add: action_call_def make_event_action_def)
qed

theorem unknown_operation_is_noop_witness:
  "''set'' \<notin> {''add'', ''multiply'', ''reduce_percent'', ''add_percent''}
   \<and> has_active_entity ''Income'' ''Salary'' example_manager
   \<and> action_call (make_event_action ''Income'' ''Salary'' ''set'' (Py 1)) example_manager
       = Inr example_manager"
proof -
  have 1: "''set'' \<notin> {''add'', ''multiply'', ''reduce_percent'', ''add_percent''}" by simp
  have 2: "has_active_entity ''Income'' ''Salary'' example_manager"
    by (simp add: has_active_entity_def lower_income example_manager_def Income_def)
  from 1 2 unknown_operation_is_noop[OF 1 2, of "Py 1"] show ?thesis by simp
qed

text \<open>
  C6, as the code has it. An action built by \<open>make_event_action\<close> with one of the four
  operations \<open>add\<close>, \<open>multiply\<close>, \<open>reduce_percent\<close>, \<open>add_percent\<close>, called on a manager that
  holds no active entity of the type and name, raises: AttributeError (the lookup gave
  \<open>None\<close>, which has no \<open>amount\<close>) when the type is one of the five the manager knows,
  ValueError (from \<open>get_object\<close>) when it is not. With any other operation the action
  raises nothing, as the counterexample shows.
\<close>

theorem missing_object_raises:
  assumes "operation \<in> {''add'', ''multiply'', ''reduce_percent'', ''add_percent''}"
    and "\<not> has_active_entity obj_type obj_name fm"
  shows "action_call (make_event_action obj_type obj_name operation v) fm =
     Inl (if lower obj_type \<in> {''income'', ''expense'', ''investment'', ''event'', ''target''}
          then AttributeError else ValueError)"
proof (cases "get_object obj_type obj_name fm")
  case (Inl e)
  then have "lower obj_type \<notin> {''income'', ''expense'', ''investment'', ''event'', ''target''}"
    and "e = ValueError"
    by (auto simp: get_object_def Let_def split: if_splits)
  with Inl show ?thesis by (simp add: action_call_def make_event_action_def)
next
  case (Inr obj)
  then have ty: "lower obj_type \<in> {''income'', ''expense'', ''investment'', ''event'', ''target''}"
    by (auto simp: get_object_def Let_def split: if_splits)
  have "obj = None"
  proof (cases obj)
    case None
    then show ?thesis .
  next
    case (Some r)
    with Inr assms(2) get_object_found_iff[of obj_type obj_name fm] show ?thesis by auto
  qed
  with Inr ty assms(1) show ?thesis
    by (auto simp: action_call_def make_event_action_def)
qed

theorem missing_object_raises_witness:
  "''add'' \<in> {''add'', ''multiply'', ''reduce_percent'', ''add_percent''}
   \<and> \<not> has_active_entity ''Income'' ''Bonus'' example_manager
   \<and> action_call (make_event_action ''Income'' ''Bonus'' ''add'' (Py 1)) example_manager
       = Inl AttributeError"
proof -
  have 1: "''add'' \<in> {''add'', ''multiply'', ''reduce_percent'', ''add_percent''}" by simp
  have 2: "\<not> has_active_entity ''Income'' ''Bonus'' example_manager"
    by (simp add: has_active_entity_def lower_income example_manager_def Income_def)
  from 1 2 missing_object_raises[OF 1 2, of "Py 1"] show ?thesis
    by (simp add: lower_income)
qed

text \<open>No income is named \<open>Bonus\<close>, the operation is \<open>set\<close>: the action returns normally
  and the manager is unchanged.\<close>

theorem missing_object_silent_counterexample:
  "\<not> has_active_entity ''Income'' ''Bonus'' example_manager
   \<and> action_call (make_event_action ''Income'' ''Bonus'' ''set'' (Py 1)) example_manager
       = Inr example_manager"
  by (simp add: has_active_entity_def lower_income example_manager_def Income_def
      action_call_def make_event_action_def get_object_def)

text \<open>
  C5, where the code departs from it. \<open>delete_object\<close> on an income, an expense or an
  investment of the given name does not deactivate it and does not return: the
  assignment \<open>obj.is_active = False\<close> raises AttributeError, \<open>is_active\<close> being a read-only
  property.
\<close>

theorem delete_object_flow_raises:
  assumes "(lower obj_type = ''income'' \<and> (\<exists>x \<in> set (incomes fm). income.name x = obj_name))
     \<or> (lower obj_type = ''expense'' \<and> (\<exists>x \<in> set (expenses fm). expense.name x = obj_name))
     \<or> (lower obj_type = ''investment'' \<and>
          (\<exists>x \<in> set (investments fm). investment.name x = obj_name))"
  shows "delete_object obj_type obj_name fm = Inl AttributeError"
  using assms
  by (auto simp: delete_object_def Let_def dest!: first_index_exists[THEN iffD2])

theorem delete_object_flow_raises_witness:
  "lower ''income'' = ''income''
   \<and> (\<exists>x \<in> set (incomes example_manager). income.name x = ''Salary'')
   \<and> delete_object ''income'' ''Salary'' example_manager = Inl AttributeError"
proof -
  have 1: "lower ''income'' = ''income''" by (rule lower_income)
  have 2: "\<exists>x \<in> set (incomes example_manager). income.name x = ''Salary''"
    by (simp add: example_manager_def Income_def)
  from 1 2 have "delete_object ''income'' ''Salary'' example_manager = Inl AttributeError"
    by (intro delete_object_flow_raises) blast
  with 1 2 show ?thesis by blast
qed

text \<open>The rest of the claim holds: an event or a target is removed from its collection,
  and nothing is found where no entity has the name.\<close>

lemma delete_object_event:
  assumes "lower obj_type = ''event''"
  shows "delete_object obj_type obj_name fm =
     (case first_index (\<lambda>obj. event.name obj = obj_name) (events fm) of
        None \<Rightarrow> Inr (False, fm)
      | Some i \<Rightarrow> Inr (True, fm\<lparr>events := pop i (events fm)\<rparr>))"
  using assms by (simp add: delete_object_def)

lemma delete_object_target:
  assumes "lower obj_type = ''target''"
  shows "delete_object obj_type obj_name fm =
     (case first_index (\<lambda>obj. target.name obj = obj_name) (targets fm) of
        None \<Rightarrow> Inr (False, fm)
      | Some i \<Rightarrow> Inr (True, fm\<lparr>targets := pop i (targets fm)\<rparr>))"
  using assms by (simp add: delete_object_def)

lemma delete_object_not_found:
  assumes "lower obj_type \<in> {''income'', ''expense'', ''investment'', ''event'', ''target''}"
    and "\<not> (\<exists>x \<in> set (incomes fm). income.name x = obj_name)"
    and "\<not> (\<exists>x \<in> set (expenses fm). expense.name x = obj_name)"
    and "\<not> (\<exists>x \<in> set (investments fm). investment.name x = obj_name)"
    and "\<not> (\<exists>x \<in> set (events fm). event.name x = obj_name)"
    and "\<not> (\<exists>x \<in> set (targets fm). target.name x = obj_name)"
  shows "delete_object obj_type obj_name fm = Inr (False, fm)"
proof -
  have none: "\<not> (\<exists>x \<in> set xs. P x) \<Longrightarrow> first_index P xs = None" for P and xs :: "'a list"
    by (simp add: first_index_None_iff)
  show ?thesis
    using assms(1) none[OF assms(2)] none[OF assms(3)] none[OF assms(4)] none[OF assms(5)]
      none[OF assms(6)]
    by (auto simp: delete_object_def Let_def)
qed

section \<open>Events\<close>

















section \<open>The step and the run\<close>

























text \<open>
  C2. A manager at month 0 with cash 15000, one income (active, amount 20000, recurrence
  1), one expense (active, amount 6000, recurrence 1), no investments, events or targets,
  and sweeping off (the rate is not positive or the allocation is empty): one step
  completes, whatever the generator, and its snapshot has income 20000, expense 6000 and
  cash 29000. No random draw is taken.
\<close>

theorem first_month_example:
  assumes "month fm = 0" and "val (cash fm) = 15000"
    and "incomes fm = [i]" and "income.active i"
    and "val (income.amount i) = 20000" and "income.recurrence i = 1"
    and "expenses fm = [x]" and "expense.active x"
    and "val (expense.amount x) = 6000" and "expense.recurrence x = 1"
    and "investments fm = []" and "events fm = []" and "targets fm = []"
    and "\<not> (0 < val (invest_sweep_rate fm) \<and> allocation fm \<noteq> [])"
  shows "\<exists>snap fm'. step_month fm g = Inr (snap, fm', g)
     \<and> val (snapshot.income snap) = 20000
     \<and> val (snapshot.expense snap) = 6000
     \<and> val (snapshot.cash snap) = 29000"
proof -
  have a: "val (Py 0 + income.amount i) * 100 = of_int 2000000"
    and b: "val (Py 0 + expense.amount x) * 100 = of_int 600000"
    and c: "val (cash fm + income.amount i - expense.amount x) * 100 = of_int 2900000"
    using assms by (simp_all add: val_simps)
  have sw: "sweep (fm\<lparr>cash := c', investments := []\<rparr>) = Inr (Py 0, fm\<lparr>cash := c', investments := []\<rparr>)" for c'
    using assms(14) by (auto simp: sweep_def)
  show ?thesis
    using assms(1,3,4,6,7,8,10,11,12,13)
    apply (simp add: step_month_def is_due_def receive_def charge_def sw
        apply_increments_if_cycle_end_def targets_status_def Let_def)
    apply (simp add: val_round2_cents[OF a] val_round2_cents[OF b] val_round2_cents[OF c]
        assms(2,5,9) val_simps plus_num_def[symmetric])
    done
qed


theorem first_month_example_witness:
  "month example_manager = 0 \<and> val (cash example_manager) = 15000
   \<and> incomes example_manager = [Income ''Salary'' (Py 20000) 1 False (Py 0)]
   \<and> expenses example_manager = [Expense ''Rent'' (Py 6000) 1 False (Py 0)]
   \<and> (\<exists>snap fm'. step_month example_manager (sconst 0) = Inr (snap, fm', sconst 0)
        \<and> val (snapshot.income snap) = 20000
        \<and> val (snapshot.expense snap) = 6000
        \<and> val (snapshot.cash snap) = 29000)"
proof -
  let ?i = "Income ''Salary'' (Py 20000) 1 False (Py 0)"
  let ?x = "Expense ''Rent'' (Py 6000) 1 False (Py 0)"
  have h: "month example_manager = 0" "val (cash example_manager) = 15000"
    "incomes example_manager = [?i]" "income.active ?i"
    "val (income.amount ?i) = 20000" "income.recurrence ?i = 1"
    "expenses example_manager = [?x]" "expense.active ?x"
    "val (expense.amount ?x) = 6000" "expense.recurrence ?x = 1"
    "investments example_manager = []" "events example_manager = []"
    "targets example_manager = []"
    "\<not> (0 < val (invest_sweep_rate example_manager) \<and> allocation example_manager \<noteq> [])"
    by (simp_all add: example_manager_def Income_def Expense_def)
  from first_month_example[OF h, of "sconst 0"] h(1,2,3,7) show ?thesis
    by - (intro conjI; assumption)
qed

section \<open>The sweep\<close>

lemma add_funds_shape:
  "investment.name (add_funds v a) = investment.name v \<and>
   investment.active (add_funds v a) = investment.active v"
  by (simp add: add_funds_def)

lemma first_index_list_update:
  assumes "P y = P (xs ! k)"
  shows "first_index P (xs[k := y]) = first_index P xs"
proof (cases "k < length xs")
  case False
  then show ?thesis by (simp add: list_update_beyond)
next
  case True
  then show ?thesis using assms
  proof (induction xs arbitrary: k)
    case Nil
    then show ?case by simp
  next
    case (Cons x xs)
    then show ?case by (cases k) auto
  qed
qed

lemma find_active_update:
  "find_active (invs[k := add_funds (invs ! k) a]) n = find_active invs n"
  unfolding find_active_def
  by (rule first_index_list_update) (simp add: add_funds_shape)

lemma find_active_None: "find_active invs n = None \<longleftrightarrow>
    \<not> (\<exists>v \<in> set invs. investment.name v = n \<and> investment.active v)"
  by (simp add: find_active_def first_index_None_iff)

lemma find_active_Some:
  "find_active invs n = Some k \<Longrightarrow>
     k < length invs \<and> investment.name (invs ! k) = n \<and> investment.active (invs ! k)"
  by (simp add: find_active_def first_index_Some_iff)

lemma share_Nil: "share [] s T invs j = None"
  by (simp add: share_def)

lemma sweep_loop_spec:
  assumes "distinct (map fst alloc)"
  shows "sweep_loop alloc s T invs acc =
     (map (\<lambda>j. case share alloc s T invs j of
                  None \<Rightarrow> invs ! j
                | Some a \<Rightarrow> (invs ! j)\<lparr>investment.amount := investment.amount (invs ! j) + a\<rparr>)
        [0..<length invs],
      foldl (+) acc (distributed alloc s T invs))"
  using assms
proof (induction alloc arbitrary: invs acc)
  case Nil
  then show ?case by (simp add: share_Nil distributed_def map_nth)
next
  case (Cons p rest)
  obtain n w where p: "p = (n, w)" by (cases p)
  from Cons.prems p have dist: "distinct (map fst rest)" and fresh: "n \<notin> fst ` set rest"
    by auto
  have none: "map_of rest n = None" using fresh by (simp add: map_of_eq_None_iff)
  show ?case
  proof (cases "find_active invs n")
    case None
    have sh: "share (p # rest) s T invs j = share rest s T invs j" if "j < length invs" for j
    proof (cases "find_active invs (investment.name (invs ! j)) = Some j")
      case True
      then have "investment.name (invs ! j) \<noteq> n" using None by auto
      then show ?thesis by (simp add: share_def p)
    next
      case False
      then show ?thesis by (simp add: share_def)
    qed
    have di: "distributed (p # rest) s T invs = distributed rest s T invs"
      using None by (simp add: distributed_def p find_active_None)
    have "sweep_loop (p # rest) s T invs acc = sweep_loop rest s T invs acc"
      using None by (simp add: p find_active_def)
    also note Cons.IH[OF dist]
    finally show ?thesis using sh by (simp add: di cong: map_cong)
  next
    case (Some k)
    note fk = find_active_Some[OF Some]
    define a where "a = s * (w / T)"
    define invs1 where "invs1 = invs[k := add_funds (invs ! k) a]"
    have len1: "length invs1 = length invs" by (simp add: invs1_def)
    have fa1: "find_active invs1 m = find_active invs m" for m
      unfolding invs1_def by (rule find_active_update)
    have nm1: "investment.name (invs1 ! j) = investment.name (invs ! j)" if "j < length invs" for j
      using that by (cases "j = k") (simp_all add: invs1_def add_funds_shape)
    have ex1: "(\<exists>v \<in> set invs1. investment.name v = m \<and> investment.active v) \<longleftrightarrow>
               (\<exists>v \<in> set invs. investment.name v = m \<and> investment.active v)" for m
      using fa1[of m] find_active_None by (metis)
    have step: "sweep_loop (p # rest) s T invs acc = sweep_loop rest s T invs1 (acc + a)"
      using Some by (simp add: p find_active_def a_def invs1_def Let_def)
    have di: "distributed (p # rest) s T invs = a # distributed rest s T invs1"
      using fk by (auto simp: distributed_def p a_def ex1)
    have el: "(case share rest s T invs1 j of
                 None \<Rightarrow> invs1 ! j
               | Some b \<Rightarrow> (invs1 ! j)\<lparr>investment.amount := investment.amount (invs1 ! j) + b\<rparr>)
            = (case share (p # rest) s T invs j of
                 None \<Rightarrow> invs ! j
               | Some b \<Rightarrow> (invs ! j)\<lparr>investment.amount := investment.amount (invs ! j) + b\<rparr>)"
      if j: "j < length invs" for j
    proof (cases "j = k")
      case True
      have "share rest s T invs1 k = None"
        using fk none by (simp add: share_def nm1 fa1)
      moreover have "share (p # rest) s T invs k = Some a"
        using fk Some by (simp add: share_def p a_def)
      moreover have "invs1 ! k = (invs ! k)\<lparr>investment.amount := investment.amount (invs ! k) + a\<rparr>"
        using fk by (simp add: invs1_def add_funds_def)
      ultimately show ?thesis using True by simp
    next
      case False
      have same: "invs1 ! j = invs ! j" using False by (simp add: invs1_def)
      have "share rest s T invs1 j = share (p # rest) s T invs j"
      proof (cases "find_active invs (investment.name (invs ! j)) = Some j")
        case True
        then have "investment.name (invs ! j) \<noteq> n" using Some False by auto
        then show ?thesis by (simp add: share_def p same fa1)
      next
        case False
        then show ?thesis by (simp add: share_def same fa1)
      qed
      then show ?thesis unfolding same by simp
    qed
    show ?thesis
      unfolding step Cons.IH[OF dist] len1 di
      using el by (simp cong: map_cong)
  qed
qed

text \<open>
  C4. With a positive sweep rate, an allocation that is not empty (a dict: its names are
  distinct) and has a positive total weight, and a positive \<open>cash * invest_sweep_rate\<close>,
  the sweep completes. The first active investment of each allocated name has its balance
  raised by the sweep amount times the weight over the total weight; every other
  investment (inactive, not named, or not the first active one of its name) is left as it
  is. The amount invested is the sum of the parts actually given out, and the cash falls
  by exactly that amount.
\<close>

theorem sweep_distribution:
  assumes "0 < val (invest_sweep_rate fm)" and "allocation fm \<noteq> []"
    and "distinct (map fst (allocation fm))"
    and "0 < val (foldl (+) (Py 0) (map snd (allocation fm)))"
    and "0 < val (cash fm * invest_sweep_rate fm)"
  shows "\<exists>invested fm'. sweep fm = Inr (invested, fm')
     \<and> length (investments fm') = length (investments fm)
     \<and> (\<forall>j < length (investments fm).
          investments fm' ! j =
            (case share (allocation fm) (cash fm * invest_sweep_rate fm)
                    (foldl (+) (Py 0) (map snd (allocation fm))) (investments fm) j of
               None \<Rightarrow> investments fm ! j
             | Some a \<Rightarrow> (investments fm ! j)
                 \<lparr>investment.amount := investment.amount (investments fm ! j) + a\<rparr>))
     \<and> invested = foldl (+) (Py 0)
          (distributed (allocation fm) (cash fm * invest_sweep_rate fm)
             (foldl (+) (Py 0) (map snd (allocation fm))) (investments fm))
     \<and> cash fm' = cash fm - invested"
proof -
  have mx: "py_max (Py 0) (cash fm * invest_sweep_rate fm) = cash fm * invest_sweep_rate fm"
    using assms(5) by (simp add: py_max_def)
  show ?thesis
    using assms(1,2,4,5)
    by (simp add: sweep_def mx Let_def sweep_loop_spec[OF assms(3)] cong: option.case_cong)
qed

theorem sweep_distribution_witness:
  "0 < val (invest_sweep_rate (sweep_manager True))
   \<and> allocation (sweep_manager True) \<noteq> []
   \<and> distinct (map fst (allocation (sweep_manager True)))
   \<and> 0 < val (foldl (+) (Py 0) (map snd (allocation (sweep_manager True))))
   \<and> cash (sweep_manager True) * invest_sweep_rate (sweep_manager True) = Py 1000
   \<and> (\<exists>fm'. sweep (sweep_manager True) = Inr (Py 1000, fm')
         \<and> map investment.amount (investments fm') = [Py 600, Py 400]
         \<and> cash fm' = Py 1000)
   \<and> (\<exists>fm'. sweep (sweep_manager False) = Inr (Py 600, fm')
         \<and> map investment.amount (investments fm') = [Py 600, Py 0]
         \<and> cash fm' = Py 1400)"
proof -
  let ?alloc = "[(''A'', Py (3 / 5)), (''B'', Py (2 / 5))]"
  have h: "0 < val (invest_sweep_rate (sweep_manager b))" "allocation (sweep_manager b) \<noteq> []"
    "distinct (map fst (allocation (sweep_manager b)))"
    "0 < val (foldl (+) (Py 0) (map snd (allocation (sweep_manager b))))"
    "0 < val (cash (sweep_manager b) * invest_sweep_rate (sweep_manager b))" for b
    by (simp_all add: sweep_manager_def num_defs)
  have s: "cash (sweep_manager b) * invest_sweep_rate (sweep_manager b) = Py 1000"
    and t: "foldl (+) (Py 0) (map snd (allocation (sweep_manager b))) = Py 1" for b
    by (simp_all add: sweep_manager_def num_defs)
  have two: "(\<forall>j<Suc (Suc 0). P j) \<longleftrightarrow> P 0 \<and> P (Suc 0)" for P
    by (auto simp: less_Suc_eq)
  have nth2: "length xs = 2 \<Longrightarrow> xs = [xs ! 0, xs ! 1]" for xs :: "investment list"
    by (cases xs; cases "tl xs") auto
  from sweep_distribution[OF h, of True] obtain fm1 where
    1: "sweep (sweep_manager True) = Inr (Py 1000, fm1)"
       "map investment.amount (investments fm1) = [Py 600, Py 400]" "cash fm1 = Py 1000"
    unfolding s t
    apply (clarsimp simp add: sweep_manager_def Investment_def two share_def distributed_def
        find_active_def num_defs)
    subgoal for fm' by (cases "investments fm'"; cases "tl (investments fm')") auto
    done
  from sweep_distribution[OF h, of False] obtain fm2 where
    2: "sweep (sweep_manager False) = Inr (Py 600, fm2)"
       "map investment.amount (investments fm2) = [Py 600, Py 0]" "cash fm2 = Py 1400"
    unfolding s t
    apply (clarsimp simp add: sweep_manager_def Investment_def two share_def distributed_def
        find_active_def num_defs)
    subgoal for fm' by (cases "investments fm'"; cases "tl (investments fm')") auto
    done
  have e1: "\<exists>fm'. sweep (sweep_manager True) = Inr (Py 1000, fm')
         \<and> map investment.amount (investments fm') = [Py 600, Py 400]
         \<and> cash fm' = Py 1000"
    by (rule exI[of _ fm1]) (simp add: 1)
  have e2: "\<exists>fm'. sweep (sweep_manager False) = Inr (Py 600, fm')
         \<and> map investment.amount (investments fm') = [Py 600, Py 0]
         \<and> cash fm' = Py 1400"
    by (rule exI[of _ fm2]) (simp add: 2)
  from h[of True] s[of True] e1 e2 show ?thesis by - (intro conjI; assumption)
qed

section \<open>Targets\<close>

lemma targets_status_loop_fails:
  "t \<in> set ts \<Longrightarrow> status t fm = Inl e \<Longrightarrow> \<exists>e'. targets_status_loop ts fm = Inl e'"
proof (induction ts)
  case Nil
  then show ?case by simp
next
  case (Cons a ts)
  show ?case
  proof (cases "a = t")
    case True
    with Cons.prems show ?thesis by simp
  next
    case False
    with Cons have "\<exists>e'. targets_status_loop ts fm = Inl e'" by simp
    then show ?thesis by (auto split: sum.splits)
  qed
qed

text \<open>
  C7, as the code has it. A target is built with goal 0 like any other: \<open>Target\<close> checks
  nothing. When its status is evaluated and both the goal and the current value of its
  metric are native numbers, the division raises ZeroDivisionError: \<open>status\<close> and
  \<open>is_reached\<close> raise it, and so does the evaluation of the targets of a manager that
  holds the target, so no infinity or NaN reaches a snapshot. The counterexample is the
  other case: the current value is a numpy scalar.
\<close>

theorem zero_goal_native_raises:
  assumes "val (goal_value t) = 0" and "\<not> is_np (goal_value t)"
    and "check_function t (core.truncate fm) = Inr current" and "\<not> is_np current"
  shows "status t fm = Inl ZeroDivisionError
     \<and> is_reached t fm = Inl ZeroDivisionError
     \<and> (t \<in> set (targets fm) \<longrightarrow> (\<exists>e. targets_status fm = Inl e))"
proof -
  have st: "status t fm = Inl ZeroDivisionError"
    using assms by (simp add: status_def truediv_def)
  then have "is_reached t fm = Inl ZeroDivisionError"
    by (simp add: is_reached_def)
  with st targets_status_loop_fails[of t "targets fm" fm ZeroDivisionError] show ?thesis
    by (simp add: targets_status_def)
qed

theorem zero_goal_native_raises_witness:
  "val (goal_value (Target ''Wealth'' (\<lambda>c. Inr (total_investments c)) (Py 0))) = 0
   \<and> \<not> is_np (goal_value (Target ''Wealth'' (\<lambda>c. Inr (total_investments c)) (Py 0)))
   \<and> check_function (Target ''Wealth'' (\<lambda>c. Inr (total_investments c)) (Py 0))
        (core.truncate zero_goal_manager) = Inr (Py 30000)
   \<and> \<not> is_np (Py 30000)
   \<and> status (Target ''Wealth'' (\<lambda>c. Inr (total_investments c)) (Py 0)) zero_goal_manager
        = Inl ZeroDivisionError
   \<and> step_month zero_goal_manager (sconst 0.9) = Inl ZeroDivisionError"
proof -
  let ?t = "Target ''Wealth'' (\<lambda>c. Inr (total_investments c)) (Py 0)"
  have 1: "val (goal_value ?t) = 0" and 2: "\<not> is_np (goal_value ?t)"
    and 3: "check_function ?t (core.truncate zero_goal_manager) = Inr (Py 30000)"
    and 4: "\<not> is_np (Py 30000)"
    by (simp_all add: Target_def zero_goal_manager_def Investment_def total_investments_def
        core.truncate_def num_defs)
  have 5: "step_month zero_goal_manager (sconst 0.9) = Inl ZeroDivisionError"
    by (simp add: step_month_def zero_goal_manager_def Investment_def Target_def sweep_def
     dividend_def add_funds_def revaluation_def rand_def choice_def
     apply_increments_if_cycle_end_def targets_status_def status_def is_reached_def
     truediv_def total_investments_def core.truncate_def num_defs Let_def)
  from zero_goal_native_raises[OF 1 2 3 4] 1 2 3 4 5 show ?thesis by simp
qed

text \<open>With a numpy value the division by a zero goal never raises.\<close>

lemma zero_goal_numpy_is_silent:
  assumes "val (goal_value t) = 0"
    and "check_function t (core.truncate fm) = Inr current" and "is_np current"
  shows "\<exists>progress. status t fm = Inr (current, progress)"
  using assms by (simp add: status_def truediv_def)

text \<open>
  With draws of 0 the investment of \<open>zero_goal_manager\<close> is revalued in the first month
  and its balance is the numpy scalar 28500: the target of goal 0 is evaluated without an
  exception and the snapshot records progress 100 and reached. (With draws of 0.9 there
  is no revaluation, the balance stays native and the step raises, as shown above.) With
  a negative numpy value the progress is minus infinity.
\<close>

theorem zero_goal_counterexample:
  "goal_value (Target ''Wealth'' (\<lambda>c. Inr (total_investments c)) (Py 0)) = Py 0
   \<and> map_sum id (snapshot.targets \<circ> fst) (step_month zero_goal_manager (sconst 0))
     = Inr [(''Wealth'', Np 28500, Fin (Py 100), True)]
   \<and> status (Target ''Overdraft'' (\<lambda>c. Inr (cash c)) (Py 0)) (zero_goal_manager\<lparr>cash := Np (- 5)\<rparr>)
     = Inr (Np (- 5), NegInf)"
  by (simp add: step_month_def zero_goal_manager_def Investment_def Target_def sweep_def
     dividend_def add_funds_def revaluation_def rand_def choice_def
     apply_increments_if_cycle_end_def targets_status_def status_def is_reached_def
     truediv_def total_investments_def core.truncate_def num_defs Let_def)

section \<open>Reproducibility\<close>






end
